theory Spec2Isabelle
  imports Complex_Main "HOL-Library.Word"
begin

section \<open>JavaScript values used by the dashboard\<close>

text \<open>
  A JavaScript string is a sequence of 16-bit code units. \<open>str\<close> turns a literal of the
  source into that representation.
\<close>

type_synonym code_unit = "16 word"
type_synonym jsstring = "code_unit list"

definition str :: "string \<Rightarrow> jsstring" where
  "str cs = map of_char cs"

text \<open>
  \<open>String.prototype.trim\<close> removes the leading and trailing code units that ECMAScript
  classes as WhiteSpace or LineTerminator: TAB, LF, VT, FF, CR, SP, NBSP, U+1680,
  U+2000 to U+200A, LS, PS, U+202F, U+205F, U+3000 and the BOM.
\<close>

definition isWhiteSpace :: "code_unit \<Rightarrow> bool" where
  "isWhiteSpace c =
     (c \<in> {0x9, 0xA, 0xB, 0xC, 0xD, 0x20, 0xA0, 0x1680, 0x2028, 0x2029, 0x202F, 0x205F,
           0x3000, 0xFEFF}
      \<or> (0x2000 \<le> c \<and> c \<le> 0x200A))"

definition trim :: "jsstring \<Rightarrow> jsstring" where
  "trim s = rev (dropWhile isWhiteSpace (rev (dropWhile isWhiteSpace s)))"

text \<open>The decimal rendering of a non-negative integer inside a template literal.\<close>

fun toDecimal :: "nat \<Rightarrow> jsstring" where
  "toDecimal n =
     (if n < 10 then [of_nat (48 + n)]
      else toDecimal (n div 10) @ [of_nat (48 + n mod 10)])"

declare toDecimal.simps [simp del]

text \<open>
  What a promise is rejected with. Firebase rejects with an error object that carries a
  \<open>code\<close>; \<open>uploadImage\<close> rejects with a bare string (line 54), whose \<open>code\<close> property is
  undefined.
\<close>

datatype reason = FirebaseError jsstring | StringReason jsstring

fun code :: "reason \<Rightarrow> jsstring option" where
  "code (FirebaseError c) = Some c"
| "code (StringReason m) = None"

text \<open>
  The state in which an awaited promise is found. \<open>Pending\<close> is a promise that never
  settles: the function awaiting it never resumes.
\<close>

datatype 'a promise = Resolved 'a | Rejected reason | Pending

section \<open>Data model\<close>

text \<open>The identity exposed by \<open>useAuth\<close>: \<open>user.uid\<close> and \<open>user.email\<close> (a string or null).\<close>

record user =
  uid :: jsstring
  email :: "jsstring option"

text \<open>A \<open>File\<close>; the code reads its \<open>name\<close> only.\<close>

record jsfile =
  name :: jsstring

text \<open>A Firestore \<open>Timestamp\<close>, compared by seconds and then by nanoseconds.\<close>

datatype timestamp = Timestamp (seconds: int) (nanoseconds: nat)


text \<open>
  The interface \<open>Post\<close> (lines 25 to 33). \<open>imageUrl\<close> is optional, \<open>createdAt\<close> is a
  timestamp or null. The fields carry a prefix because \<open>id\<close>, \<open>title\<close> and \<open>content\<close> name
  other constants here.
\<close>

record post =
  post_id :: jsstring
  post_title :: jsstring
  post_content :: jsstring
  post_imageUrl :: "jsstring option"
  post_authorId :: jsstring
  post_authorEmail :: jsstring
  post_createdAt :: "timestamp option"

text \<open>
  A document of a query snapshot: \<open>doc.id\<close> and \<open>doc.data()\<close>. The cast \<open>as Post[]\<close> of
  line 132 takes the data to have the fields of \<open>Post\<close>; so does the model. The data of a
  document may itself have a field named \<open>id\<close>: \<open>data_id\<close> is that field when it is there.
\<close>

record post_data =
  data_id :: "jsstring option"
  data_title :: jsstring
  data_content :: jsstring
  data_imageUrl :: "jsstring option"
  data_authorId :: jsstring
  data_authorEmail :: jsstring
  data_createdAt :: "timestamp option"

record doc =
  doc_id :: jsstring
  doc_data :: post_data

text \<open>
  The object handed to \<open>addDoc\<close> (lines 183 to 190). Its \<open>createdAt\<close> is the sentinel
  returned by \<open>serverTimestamp()\<close>, never a time computed by the client.
\<close>

datatype field_value = ServerTimestamp

record new_post =
  new_title :: jsstring
  new_content :: jsstring
  new_imageUrl :: jsstring
  new_authorId :: jsstring
  new_authorEmail :: jsstring
  new_createdAt :: field_value

text \<open>The \<open>useState\<close> cells of the component (lines 40 to 49).\<close>

record state =
  posts :: "post list"
  title :: jsstring
  content :: jsstring
  featuredImage :: "jsfile option"
  imagePreview :: "jsstring option"
  isSubmitting :: bool
  uploadProgress :: real
  isInitialLoading :: bool
  permissionError :: "jsstring option"

definition initial_state :: state where
  "initial_state =
     \<lparr>posts = [], title = [], content = [], featuredImage = None, imagePreview = None,
      isSubmitting = False, uploadProgress = 0, isInitialLoading = True,
      permissionError = None\<rparr>"

text \<open>The standing query of lines 124 and 125.\<close>

datatype direction = Asc | Desc

datatype query = Query (collection: jsstring) (orderField: jsstring) (orderDir: direction)

definition posts_query :: query where
  "posts_query = Query (str ''posts'') (str ''createdAt'') Desc"

text \<open>
  The calls the component makes on its surroundings, in the order it makes them. \<open>SetPosts\<close>
  records a snapshot handed to the consumer by the subscription callback (line 133).
\<close>

datatype effect =
    PreventDefault
  | ConsoleError jsstring reason
  | Alert jsstring
  | UploadBytesResumable jsstring jsfile
  | GetDownloadURL jsstring
  | AddDoc jsstring new_post
  | Confirm jsstring
  | DeleteDoc jsstring jsstring
  | OnSnapshot query
  | Unsubscribe
  | SetPosts "post list"

fun is_AddDoc :: "effect \<Rightarrow> bool" where
  "is_AddDoc (AddDoc c r) = True"
| "is_AddDoc x = False"

fun is_Upload :: "effect \<Rightarrow> bool" where
  "is_Upload (UploadBytesResumable p f) = True"
| "is_Upload x = False"

section \<open>The surroundings\<close>

text \<open>
  One progress notification of an upload task, and the percentage line 62 computes from
  it. JavaScript computes it in double precision; nothing below depends on its value.
\<close>

record snapshot =
  bytesTransferred :: nat
  totalBytes :: nat

definition progress :: "snapshot \<Rightarrow> real" where
  "progress snap = (real (bytesTransferred snap) / real (totalBytes snap)) * 100"

text \<open>
  How an upload task runs: some progress notifications, then the error observer fires,
  or the completion observer fires and \<open>getDownloadURL\<close> is awaited, or neither ever
  fires.
\<close>

datatype upload_run =
    TransferError "snapshot list" reason
  | TransferComplete "snapshot list" "jsstring promise"
  | TransferStalled "snapshot list"

text \<open>
  What the services answer: the clock (\<open>Date.now()\<close>), object storage, the document
  store's insert and delete, and the user's answer to \<open>window.confirm\<close>.
\<close>

record env =
  now :: nat
  upload :: "jsstring \<Rightarrow> jsfile \<Rightarrow> upload_run"
  addDoc_result :: "new_post \<Rightarrow> unit promise"
  deleteDoc_result :: "jsstring \<Rightarrow> unit promise"
  confirm_answer :: bool

section \<open>uploadImage (lines 52 to 72)\<close>

definition report_progress :: "snapshot list \<Rightarrow> state \<Rightarrow> state" where
  "report_progress snaps s = foldl (\<lambda>s' snap. s'\<lparr>uploadProgress := progress snap\<rparr>) s snaps"

text \<open>
  The promise rejects at once when there is no user, rejects with the transfer's error
  untouched, and resolves with the download URL. When \<open>getDownloadURL\<close> does not resolve,
  neither \<open>resolve\<close> nor \<open>reject\<close> is ever called: the promise stays pending, as it does
  when the transfer itself never ends.
\<close>

definition uploadImage ::
  "env \<Rightarrow> user option \<Rightarrow> jsfile \<Rightarrow> state \<Rightarrow> jsstring promise \<times> state \<times> effect list" where
  "uploadImage e usr f s =
     (case usr of
        None \<Rightarrow> (Rejected (StringReason (str ''No user authenticated'')), s, [])
      | Some u \<Rightarrow>
          (let path = str ''posts/'' @ uid u @ str ''/'' @ toDecimal (now e) @ str ''_'' @ name f
           in case upload e path f of
                TransferError snaps err \<Rightarrow>
                  (Rejected err, report_progress snaps s, [UploadBytesResumable path f])
              | TransferComplete snaps url \<Rightarrow>
                  (case url of
                     Resolved d \<Rightarrow>
                       (Resolved d, report_progress snaps s,
                        [UploadBytesResumable path f, GetDownloadURL path])
                   | Rejected err \<Rightarrow>
                       (Pending, report_progress snaps s,
                        [UploadBytesResumable path f, GetDownloadURL path])
                   | Pending \<Rightarrow>
                       (Pending, report_progress snaps s,
                        [UploadBytesResumable path f, GetDownloadURL path]))
              | TransferStalled snaps \<Rightarrow>
                  (Pending, report_progress snaps s, [UploadBytesResumable path f])))"

section \<open>handleCreatePost (lines 169 to 207)\<close>

definition empty_document :: jsstring where
  "empty_document = str ''<p><br></p>''"

text \<open>Line 171.\<close>

definition isContentEmpty :: "jsstring \<Rightarrow> bool" where
  "isContentEmpty c = (c = [] \<or> c = empty_document)"

text \<open>The condition of the early return of line 172.\<close>

definition guard_fails :: "user option \<Rightarrow> state \<Rightarrow> bool" where
  "guard_fails usr s = (trim (title s) = [] \<or> isContentEmpty (content s) \<or> usr = None)"

text \<open>Lines 174 and 175.\<close>

definition begin_submit :: "state \<Rightarrow> state" where
  "begin_submit s = s\<lparr>isSubmitting := True, permissionError := None\<rparr>"

text \<open>Lines 192 to 196.\<close>

definition reset_form :: "state \<Rightarrow> state" where
  "reset_form s =
     s\<lparr>title := [], content := [], featuredImage := None, imagePreview := None,
       uploadProgress := 0\<rparr>"

text \<open>The catch block, lines 197 to 203.\<close>

definition catch_block :: "reason \<Rightarrow> state \<Rightarrow> state \<times> effect list" where
  "catch_block err s =
     (if code err = Some (str ''permission-denied'')
      then (s\<lparr>permissionError := Some (str ''Write Denied: Check Firestore and Storage rules.'')\<rparr>,
            [ConsoleError (str ''Error creating post:'') err])
      else (s, [ConsoleError (str ''Error creating post:'') err,
                Alert (str ''Failed to save post. Please try again.'')]))"

text \<open>The finally block, line 205.\<close>

definition finally_block :: "state \<Rightarrow> state" where
  "finally_block s = s\<lparr>isSubmitting := False\<rparr>"

text \<open>\<open>user.email || 'Anonymous'\<close>: null and the empty string are both falsy.\<close>

definition authorEmail :: "user \<Rightarrow> jsstring" where
  "authorEmail u =
     (case email u of None \<Rightarrow> str ''Anonymous''
      | Some m \<Rightarrow> if m = [] then str ''Anonymous'' else m)"

text \<open>Lines 183 to 196: the insert with the given image URL, and the reset after it.\<close>

definition add_record ::
  "env \<Rightarrow> user \<Rightarrow> jsstring \<Rightarrow> state \<Rightarrow> unit promise \<times> state \<times> effect list" where
  "add_record e u imageUrl s =
     (let r = \<lparr>new_title = trim (title s), new_content = content s, new_imageUrl = imageUrl,
               new_authorId = uid u, new_authorEmail = authorEmail u,
               new_createdAt = ServerTimestamp\<rparr>
      in case addDoc_result e r of
           Resolved x \<Rightarrow> (Resolved (), reset_form s, [AddDoc (str ''posts'') r])
         | Rejected err \<Rightarrow> (Rejected err, s, [AddDoc (str ''posts'') r])
         | Pending \<Rightarrow> (Pending, s, [AddDoc (str ''posts'') r]))"

text \<open>
  The try block, lines 178 to 196. Its result is \<open>Resolved\<close> when it runs to its end,
  \<open>Rejected\<close> when an awaited promise rejects (control passes to the catch block), and
  \<open>Pending\<close> when an awaited promise never settles.
\<close>

definition try_block ::
  "env \<Rightarrow> user \<Rightarrow> state \<Rightarrow> unit promise \<times> state \<times> effect list" where
  "try_block e u s =
     (case featuredImage s of
        None \<Rightarrow> add_record e u [] s
      | Some f \<Rightarrow>
          (case uploadImage e (Some u) f s of
             (Resolved url, s', fx) \<Rightarrow>
               (case add_record e u url s' of (r, s'', fx') \<Rightarrow> (r, s'', fx @ fx'))
           | (Rejected err, s', fx) \<Rightarrow> (Rejected err, s', fx)
           | (Pending, s', fx) \<Rightarrow> (Pending, s', fx)))"

text \<open>
  The handler, run to the point where it returns or waits forever. The first component
  is the state of the promise the async function returns.
\<close>

definition handleCreatePost ::
  "env \<Rightarrow> user option \<Rightarrow> state \<Rightarrow> unit promise \<times> state \<times> effect list" where
  "handleCreatePost e usr s =
     (if guard_fails usr s then (Resolved (), s, [PreventDefault])
      else case usr of
             None \<Rightarrow> (Resolved (), s, [PreventDefault])
           | Some u \<Rightarrow>
               (case try_block e u (begin_submit s) of
                  (Resolved x, s', fx) \<Rightarrow> (Resolved (), finally_block s', PreventDefault # fx)
                | (Rejected err, s', fx) \<Rightarrow>
                    (case catch_block err s' of
                       (s'', fx') \<Rightarrow> (Resolved (), finally_block s'', PreventDefault # fx @ fx'))
                | (Pending, s', fx) \<Rightarrow> (Pending, s', PreventDefault # fx)))"

text \<open>The three components of a handler's result.\<close>

definition settled :: "'a \<times> 'b \<times> 'c \<Rightarrow> 'a" where
  "settled r = fst r"

definition state_after :: "'a \<times> 'b \<times> 'c \<Rightarrow> 'b" where
  "state_after r = fst (snd r)"

definition effects :: "'a \<times> 'b \<times> 'c \<Rightarrow> 'c" where
  "effects r = snd (snd r)"

section \<open>The submit button (lines 323 to 342)\<close>

text \<open>The \<open>disabled\<close> attribute of line 326.\<close>

definition submit_disabled :: "state \<Rightarrow> bool" where
  "submit_disabled s =
     (isSubmitting s \<or> trim (title s) = [] \<or> content s = [] \<or> content s = empty_document)"

text \<open>
  A submit request reaches the form through its only submit button. A disabled button
  does not submit, by a click or by the Enter key in the title field, so the handler is
  not called and no event exists to call \<open>preventDefault\<close> on.
\<close>

definition submit_request ::
  "env \<Rightarrow> user option \<Rightarrow> state \<Rightarrow> unit promise \<times> state \<times> effect list" where
  "submit_request e usr s =
     (if submit_disabled s then (Resolved (), s, []) else handleCreatePost e usr s)"

text \<open>
  The component over time, with the number of calls of \<open>handleCreatePost\<close> that have
  passed line 172 and not yet reached the finally block. A call of the handler runs to
  its first await within one event; React renders again before the next event is
  dispatched, so the button the user meets reflects the state that call left behind.
  The awaited promises settle in later events. \<open>isSubmitting\<close> is written nowhere but in
  lines 174 and 205; the rule \<open>other\<close> stands for every other write to the state (typing,
  choosing a cover, upload progress, feed callbacks).
\<close>

inductive reachable :: "state \<times> nat \<Rightarrow> bool" where
  start: "reachable (initial_state, 0)"
| other: "reachable (s, n) \<Longrightarrow> isSubmitting s' = isSubmitting s \<Longrightarrow> reachable (s', n)"
| submit:
    "reachable (s, n) \<Longrightarrow> \<not> submit_disabled s \<Longrightarrow> \<not> guard_fails usr s \<Longrightarrow>
     reachable (begin_submit s, Suc n)"
| settle_ok: "reachable (s, Suc n) \<Longrightarrow> reachable (finally_block (reset_form s), n)"
| settle_failed:
    "reachable (s, Suc n) \<Longrightarrow> reachable (finally_block (fst (catch_block err s)), n)"

section \<open>handleDeletePost (lines 209 to 217)\<close>

definition handleDeletePost ::
  "env \<Rightarrow> jsstring \<Rightarrow> state \<Rightarrow> unit promise \<times> state \<times> effect list" where
  "handleDeletePost e postId s =
     (let ask = Confirm (str ''Are you sure you want to delete this post?'');
          del = DeleteDoc (str ''posts'') postId
      in if \<not> confirm_answer e then (Resolved (), s, [ask])
         else case deleteDoc_result e postId of
                Resolved x \<Rightarrow> (Resolved (), s, [ask, del])
              | Rejected err \<Rightarrow>
                  (Resolved (), s,
                   [ask, del, ConsoleError (str ''Delete failed:'') err,
                    Alert (str ''Permission Denied: You can only delete your own posts.'')])
              | Pending \<Rightarrow> (Pending, s, [ask, del]))"

text \<open>What the user is told by a run of a handler: the alerts, in order.\<close>

fun alerts :: "effect list \<Rightarrow> jsstring list" where
  "alerts [] = []"
| "alerts (Alert m # fx) = m # alerts fx"
| "alerts (x # fx) = alerts fx"

section \<open>The feed subscription (lines 122 to 146)\<close>

text \<open>
  Lines 129 to 132: \<open>{ id: doc.id, ...doc.data() }\<close>. The spread comes after \<open>id\<close>, so a field
  \<open>id\<close> of the data replaces \<open>doc.id\<close>.
\<close>

definition toPost :: "doc \<Rightarrow> post" where
  "toPost d =
     \<lparr>post_id = (case data_id (doc_data d) of None \<Rightarrow> doc_id d | Some i \<Rightarrow> i),
      post_title = data_title (doc_data d),
      post_content = data_content (doc_data d), post_imageUrl = data_imageUrl (doc_data d),
      post_authorId = data_authorId (doc_data d),
      post_authorEmail = data_authorEmail (doc_data d),
      post_createdAt = data_createdAt (doc_data d)\<rparr>"

text \<open>The snapshot callback, lines 128 to 135.\<close>

definition onNext :: "doc list \<Rightarrow> state \<Rightarrow> state \<times> effect list" where
  "onNext docs s =
     (let postsData = map toPost docs
      in (s\<lparr>posts := postsData, isInitialLoading := False\<rparr>, [SetPosts postsData]))"

text \<open>The error callback, lines 136 to 142.\<close>

definition onError :: "reason \<Rightarrow> state \<Rightarrow> state \<times> effect list" where
  "onError err s =
     (let s' = (if code err = Some (str ''permission-denied'')
                then s\<lparr>permissionError := Some (str ''Access Denied: Check your Firestore rules.'')\<rparr>
                else s)
      in (s'\<lparr>isInitialLoading := False\<rparr>, [ConsoleError (str ''Firestore Error:'') err]))"

text \<open>
  The listener that \<open>onSnapshot\<close> registers. Firestore calls the callbacks of a listener
  only while it listens: an error ends the listener, and so does the \<open>unsubscribe\<close>
  function.
\<close>

datatype listener = NoListener | Listening | Errored | Unsubscribed

record view =
  component :: state
  listener :: listener

definition initial_view :: view where
  "initial_view = \<lparr>component = initial_state, listener = NoListener\<rparr>"

text \<open>
  What happens to a dashboard view: React mounts it, renders it again, unmounts it; the
  backend notifies the standing query of a new result set, or the channel fails.
\<close>

datatype view_event =
    Mount
  | Render
  | Unmount
  | Notification "doc list"
  | ChannelFailure reason

text \<open>
  The effect of line 122 has the empty dependency list of line 146: React runs it after
  the mounting render and after no other render, and runs the cleanup it returned
  (line 145) at unmount. At mount the state cells hold their initial values.
\<close>

fun view_step :: "view_event \<Rightarrow> view \<Rightarrow> view \<times> effect list" where
  "view_step Mount v =
     (\<lparr>component = initial_state\<lparr>permissionError := None\<rparr>, listener = Listening\<rparr>,
      [OnSnapshot posts_query])"
| "view_step Render v = (v, [])"
| "view_step Unmount v = (v\<lparr>listener := Unsubscribed\<rparr>, [Unsubscribe])"
| "view_step (Notification docs) v =
     (if listener v = Listening
      then case onNext docs (component v) of (s, fx) \<Rightarrow> (v\<lparr>component := s\<rparr>, fx)
      else (v, []))"
| "view_step (ChannelFailure err) v =
     (if listener v = Listening
      then case onError err (component v) of
             (s, fx) \<Rightarrow> (\<lparr>component = s, listener = Errored\<rparr>, fx)
      else (v, []))"

fun run_view :: "view \<Rightarrow> view_event list \<Rightarrow> view \<times> effect list" where
  "run_view v [] = (v, [])"
| "run_view v (ev # evs) =
     (case view_step ev v of
        (v', fx) \<Rightarrow> (case run_view v' evs of (v'', fx') \<Rightarrow> (v'', fx @ fx')))"

text \<open>Events that come from the backend.\<close>

fun from_backend :: "view_event \<Rightarrow> bool" where
  "from_backend (Notification docs) = True"
| "from_backend (ChannelFailure err) = True"
| "from_backend ev = False"







fun is_OnSnapshot :: "effect \<Rightarrow> bool" where
  "is_OnSnapshot (OnSnapshot q) = True"
| "is_OnSnapshot x = False"

section \<open>Concrete scenarios\<close>

text \<open>
  A signed-in user, a cover file, services that give the same answer to every call, a
  draft with a title and a body, a document with a given id and timestamp, and a view
  that has just been mounted.
\<close>

definition alice :: user where
  "alice = \<lparr>uid = str ''u1'', email = Some (str ''a@b.c'')\<rparr>"

definition cover :: jsfile where
  "cover = \<lparr>name = str ''c.png''\<rparr>"

definition answering :: "upload_run \<Rightarrow> unit promise \<Rightarrow> unit promise \<Rightarrow> bool \<Rightarrow> env" where
  "answering run add del ok =
     \<lparr>now = 7, upload = (\<lambda>p f. run), addDoc_result = (\<lambda>r. add),
      deleteDoc_result = (\<lambda>i. del), confirm_answer = ok\<rparr>"

definition draft :: "string \<Rightarrow> string \<Rightarrow> state" where
  "draft t c = initial_state\<lparr>title := str t, content := str c\<rparr>"

definition with_cover :: "state \<Rightarrow> state" where
  "with_cover s = s\<lparr>featuredImage := Some cover\<rparr>"

definition doc_at :: "string \<Rightarrow> timestamp option \<Rightarrow> doc" where
  "doc_at i t =
     \<lparr>doc_id = str i,
      doc_data = \<lparr>data_id = None, data_title = str ''Sunset'', data_content = str ''<p>Hello</p>'',
                  data_imageUrl = None, data_authorId = str ''u1'',
                  data_authorEmail = str ''a@b.c'', data_createdAt = t\<rparr>\<rparr>"

definition mounted :: view where
  "mounted = fst (view_step Mount initial_view)"

section \<open>Auxiliary facts\<close>

lemmas handler_defs = handleCreatePost_def guard_fails_def isContentEmpty_def try_block_def
  add_record_def begin_submit_def finally_block_def catch_block_def reset_form_def
  effects_def state_after_def settled_def

lemmas scenario_defs = alice_def cover_def answering_def draft_def with_cover_def doc_at_def
  mounted_def initial_state_def initial_view_def str_def trim_def isWhiteSpace_def
  empty_document_def

lemma report_progress_eq:
  "report_progress snaps s =
     s\<lparr>uploadProgress := (if snaps = [] then uploadProgress s else progress (last snaps))\<rparr>"
  unfolding report_progress_def
  by (induction snaps arbitrary: s) simp_all

lemma report_progress_frame:
  "posts (report_progress snaps s) = posts s"
  "title (report_progress snaps s) = title s"
  "content (report_progress snaps s) = content s"
  "featuredImage (report_progress snaps s) = featuredImage s"
  "imagePreview (report_progress snaps s) = imagePreview s"
  "isSubmitting (report_progress snaps s) = isSubmitting s"
  "isInitialLoading (report_progress snaps s) = isInitialLoading s"
  "permissionError (report_progress snaps s) = permissionError s"
  by (simp_all add: report_progress_eq)

lemma uploadImage_frame:
  "posts (state_after (uploadImage e usr f s)) = posts s"
  "title (state_after (uploadImage e usr f s)) = title s"
  "content (state_after (uploadImage e usr f s)) = content s"
  "featuredImage (state_after (uploadImage e usr f s)) = featuredImage s"
  "imagePreview (state_after (uploadImage e usr f s)) = imagePreview s"
  "isSubmitting (state_after (uploadImage e usr f s)) = isSubmitting s"
  "isInitialLoading (state_after (uploadImage e usr f s)) = isInitialLoading s"
  "permissionError (state_after (uploadImage e usr f s)) = permissionError s"
  by (simp_all add: uploadImage_def state_after_def report_progress_frame Let_def
      split: option.split upload_run.split promise.split)

lemma uploadImage_no_AddDoc: "filter is_AddDoc (effects (uploadImage e usr f s)) = []"
  by (simp add: uploadImage_def effects_def Let_def
      split: option.split upload_run.split promise.split)

lemma catch_block_frame:
  "posts (fst (catch_block err s)) = posts s"
  "title (fst (catch_block err s)) = title s"
  "content (fst (catch_block err s)) = content s"
  "featuredImage (fst (catch_block err s)) = featuredImage s"
  "imagePreview (fst (catch_block err s)) = imagePreview s"
  "isSubmitting (fst (catch_block err s)) = isSubmitting s"
  "filter is_AddDoc (snd (catch_block err s)) = []"
  by (simp_all add: catch_block_def)

text \<open>
  The catch block of \<open>handleCreatePost\<close> tells a permission failure from any other one:
  the first sets the message of the component, the second raises an alert.
\<close>

lemma catch_block_distinguishes:
  "code err = Some (str ''permission-denied'') \<Longrightarrow>
     alerts (snd (catch_block err s)) = [] \<and>
     permissionError (fst (catch_block err s)) =
       Some (str ''Write Denied: Check Firestore and Storage rules.'')"
  "code err \<noteq> Some (str ''permission-denied'') \<Longrightarrow>
     alerts (snd (catch_block err s)) = [str ''Failed to save post. Please try again.''] \<and>
     permissionError (fst (catch_block err s)) = permissionError s"
  by (simp_all add: catch_block_def)

section \<open>What the try block of handleCreatePost returns\<close>

lemma add_record_settled:
  "settled (add_record e u url s) =
     addDoc_result e
       \<lparr>new_title = trim (title s), new_content = content s, new_imageUrl = url,
        new_authorId = uid u, new_authorEmail = authorEmail u,
        new_createdAt = ServerTimestamp\<rparr>"
  by (simp add: add_record_def settled_def Let_def split: promise.split)

lemma try_block_without_cover:
  "featuredImage s = None \<Longrightarrow>
   settled (try_block e u s) =
     addDoc_result e
       \<lparr>new_title = trim (title s), new_content = content s, new_imageUrl = [],
        new_authorId = uid u, new_authorEmail = authorEmail u,
        new_createdAt = ServerTimestamp\<rparr>"
  by (simp add: try_block_def add_record_def settled_def Let_def split: promise.split)

lemma try_block_with_cover:
  assumes "featuredImage s = Some f"
  shows "settled (try_block e u s) =
     (case settled (uploadImage e (Some u) f s) of
        Resolved url \<Rightarrow>
          addDoc_result e
            \<lparr>new_title = trim (title s), new_content = content s, new_imageUrl = url,
             new_authorId = uid u, new_authorEmail = authorEmail u,
             new_createdAt = ServerTimestamp\<rparr>
      | Rejected err \<Rightarrow> Rejected err
      | Pending \<Rightarrow> Pending)"
proof -
  obtain p s1 fx where up: "uploadImage e (Some u) f s = (p, s1, fx)"
    by (cases "uploadImage e (Some u) f s") auto
  have fr: "title s1 = title s" "content s1 = content s"
    using uploadImage_frame(2,3) [of e "Some u" f s] up by (simp_all add: state_after_def)
  show ?thesis
  proof (cases p)
    case (Resolved url)
    obtain r s2 fx' where ar: "add_record e u url s1 = (r, s2, fx')"
      by (cases "add_record e u url s1") auto
    have "r = addDoc_result e
            \<lparr>new_title = trim (title s1), new_content = content s1, new_imageUrl = url,
             new_authorId = uid u, new_authorEmail = authorEmail u,
             new_createdAt = ServerTimestamp\<rparr>"
      using add_record_settled [of e u url s1] ar by (simp add: settled_def)
    then show ?thesis
      using assms up Resolved ar fr by (simp add: try_block_def settled_def)
  next
    case (Rejected err)
    then show ?thesis using assms up by (simp add: try_block_def settled_def)
  next
    case Pending
    then show ?thesis using assms up by (simp add: try_block_def settled_def)
  qed
qed

lemma add_record_resolved:
  assumes "add_record e u url s = (Resolved x, s', fx)"
  shows "s' = reset_form s"
  using assms by (simp add: add_record_def Let_def split: promise.splits)

lemma add_record_rejected:
  assumes "add_record e u url s = (Rejected err, s', fx)"
  shows "s' = s"
  using assms by (simp add: add_record_def Let_def split: promise.splits)

lemma try_block_resolved:
  assumes "try_block e u s = (Resolved x, s', fx)"
  shows "title s' = [] \<and> content s' = [] \<and> featuredImage s' = None \<and>
         imagePreview s' = None \<and> uploadProgress s' = 0 \<and> isSubmitting s' = isSubmitting s"
proof (cases "featuredImage s")
  case None
  with assms have "s' = reset_form s"
    by (simp add: try_block_def add_record_resolved)
  then show ?thesis by (simp add: reset_form_def)
next
  case (Some f)
  obtain p s1 fx1 where up: "uploadImage e (Some u) f s = (p, s1, fx1)"
    by (cases "uploadImage e (Some u) f s") auto
  have fr: "isSubmitting s1 = isSubmitting s"
    using uploadImage_frame(6) [of e "Some u" f s] up by (simp add: state_after_def)
  from assms Some up obtain url fx2 where "add_record e u url s1 = (Resolved x, s', fx2)"
    by (auto simp add: try_block_def split: promise.splits prod.splits)
  then have "s' = reset_form s1" by (rule add_record_resolved)
  then show ?thesis using fr by (simp add: reset_form_def)
qed

lemma try_block_rejected:
  assumes "try_block e u s = (Rejected err, s', fx)"
  shows "title s' = title s \<and> content s' = content s \<and> featuredImage s' = featuredImage s \<and>
         imagePreview s' = imagePreview s \<and> isSubmitting s' = isSubmitting s"
proof (cases "featuredImage s")
  case None
  with assms have "s' = s"
    by (simp add: try_block_def add_record_rejected)
  then show ?thesis by simp
next
  case (Some f)
  obtain p s1 fx1 where up: "uploadImage e (Some u) f s = (p, s1, fx1)"
    by (cases "uploadImage e (Some u) f s") auto
  have fr: "title s1 = title s" "content s1 = content s" "featuredImage s1 = featuredImage s"
    "imagePreview s1 = imagePreview s" "isSubmitting s1 = isSubmitting s"
    using uploadImage_frame(2,3,4,5,6) [of e "Some u" f s] up by (simp_all add: state_after_def)
  from assms Some up have "s' = s1"
    by (auto simp add: try_block_def split: promise.splits prod.splits dest: add_record_rejected)
  then show ?thesis using fr by simp
qed

section \<open>Submissions in flight\<close>

lemma reachable_invariant:
  "reachable c \<Longrightarrow> snd c \<le> 1 \<and> (0 < snd c \<longrightarrow> isSubmitting (fst c))"
proof (induction rule: reachable.induct)
  case start
  show ?case by simp
next
  case (other s n s')
  then show ?case by simp
next
  case (submit s n usr)
  then show ?case by (auto simp add: submit_disabled_def begin_submit_def)
next
  case (settle_ok s n)
  then show ?case by simp
next
  case (settle_failed s n err)
  then show ?case by simp
qed

section \<open>Runs of the view\<close>

lemma run_view_append:
  "run_view v (xs @ ys) =
     (case run_view v xs of
        (v', fx) \<Rightarrow> (case run_view v' ys of (v'', fx') \<Rightarrow> (v'', fx @ fx')))"
  by (induction xs arbitrary: v) (simp_all split: prod.splits)

lemma run_view_deaf:
  "listener v \<noteq> Listening \<Longrightarrow> list_all from_backend evs \<Longrightarrow> run_view v evs = (v, [])"
proof (induction evs)
  case Nil
  show ?case by simp
next
  case (Cons ev evs)
  then show ?case by (cases ev) simp_all
qed

lemma view_step_lifecycle_free:
  assumes "ev \<noteq> Mount" "ev \<noteq> Unmount"
  shows "filter is_OnSnapshot (snd (view_step ev v)) = []"
    and "count_list (snd (view_step ev v)) Unsubscribe = 0"
  using assms
  by (cases ev; simp add: onNext_def onError_def Let_def split: prod.splits)+

lemma run_view_lifecycle_free:
  assumes "Mount \<notin> set body" "Unmount \<notin> set body"
  shows "filter is_OnSnapshot (snd (run_view v body)) = [] \<and>
         count_list (snd (run_view v body)) Unsubscribe = 0"
  using assms
proof (induction body arbitrary: v)
  case Nil
  show ?case by simp
next
  case (Cons ev body)
  obtain v' fx where st: "view_step ev v = (v', fx)" by (cases "view_step ev v") auto
  obtain v'' fx' where rn: "run_view v' body = (v'', fx')" by (cases "run_view v' body") auto
  from Cons.prems have ne: "ev \<noteq> Mount" "ev \<noteq> Unmount" by auto
  have "filter is_OnSnapshot fx = []" "count_list fx Unsubscribe = 0"
    using view_step_lifecycle_free [OF ne, of v] st by simp_all
  moreover have "filter is_OnSnapshot fx' = [] \<and> count_list fx' Unsubscribe = 0"
    using Cons.IH [of v'] Cons.prems rn by simp
  ultimately show ?case using st rn by simp
qed






text \<open>
  Where the try block of \<open>handleCreatePost\<close> settles, the form is reset after a success and
  kept after a rejection, and \<open>isSubmitting\<close> is cleared.
\<close>

lemma createPost_form_frame:
  assumes "\<not> guard_fails (Some u) s"
    and "state_after (handleCreatePost e (Some u) s) = s'"
  shows "(settled (try_block e u (begin_submit s)) = Resolved () \<longrightarrow>
            title s' = [] \<and> content s' = [] \<and> featuredImage s' = None \<and>
            imagePreview s' = None \<and> uploadProgress s' = 0 \<and> \<not> isSubmitting s')
       \<and> (settled (try_block e u (begin_submit s)) = Rejected err \<longrightarrow>
            title s' = title s \<and> content s' = content s \<and>
            featuredImage s' = featuredImage s \<and> imagePreview s' = imagePreview s \<and>
            \<not> isSubmitting s')"
proof -
  obtain p s1 fx where tb: "try_block e u (begin_submit s) = (p, s1, fx)"
    by (cases "try_block e u (begin_submit s)") auto
  show ?thesis
  proof (cases p)
    case (Resolved x)
    with assms tb have "s' = finally_block s1"
      by (simp add: handleCreatePost_def state_after_def)
    then show ?thesis
      using try_block_resolved [OF tb [unfolded Resolved]] tb Resolved
      by (simp add: finally_block_def settled_def)
  next
    case (Rejected err')
    with assms tb have "s' = finally_block (fst (catch_block err' s1))"
      by (simp add: handleCreatePost_def state_after_def split: prod.splits)
    then show ?thesis
      using try_block_rejected [OF tb [unfolded Rejected]] tb Rejected
      by (simp add: finally_block_def settled_def catch_block_frame begin_submit_def)
  next
    case Pending
    then show ?thesis using tb by (simp add: settled_def)
  qed
qed

section \<open>The claims\<close>

text \<open>
  C1, as amended. For a submission with a title that is not empty after trimming, a
  content that is neither empty nor the empty document, no cover file and a signed-in
  user, \<open>handleCreatePost\<close> calls \<open>addDoc\<close> exactly once and uploads nothing. The record's
  content is the input content, its image field is the empty string, and its title is
  the input title trimmed (line 184), not the input title as typed.
\<close>

theorem createPost_without_cover_adds_one_record:
  assumes "trim (title s) \<noteq> []" "content s \<noteq> []" "content s \<noteq> empty_document"
    and "featuredImage s = None"
  shows "filter is_AddDoc (effects (handleCreatePost e (Some u) s)) =
           [AddDoc (str ''posts'')
              \<lparr>new_title = trim (title s), new_content = content s, new_imageUrl = [],
               new_authorId = uid u, new_authorEmail = authorEmail u,
               new_createdAt = ServerTimestamp\<rparr>]
         \<and> filter is_Upload (effects (handleCreatePost e (Some u) s)) = []"
  using assms by (simp add: handler_defs Let_def split: promise.splits)

theorem createPost_without_cover_adds_one_record_witness:
  "filter is_AddDoc (effects (handleCreatePost (answering (TransferStalled []) (Resolved ()) Pending False)
       (Some alice) (draft ''Sunset'' ''<p>Hello</p>''))) =
     [AddDoc (str ''posts'')
        \<lparr>new_title = str ''Sunset'', new_content = str ''<p>Hello</p>'', new_imageUrl = [],
         new_authorId = str ''u1'', new_authorEmail = str ''a@b.c'',
         new_createdAt = ServerTimestamp\<rparr>]"
  using createPost_without_cover_adds_one_record
    [of "draft ''Sunset'' ''<p>Hello</p>''"
      "answering (TransferStalled []) (Resolved ()) Pending False" alice]
  by (simp add: draft_def initial_state_def alice_def str_def
      trim_def isWhiteSpace_def empty_document_def authorEmail_def)

text \<open>
  C1 as stated fails: for the title \<open>" a"\<close> the input is valid and the one record
  created has the title \<open>"a"\<close>, which is not the input title.
\<close>

theorem createPost_title_is_trimmed_counterexample:
  "trim (title (draft '' a'' ''<p>x</p>'')) \<noteq> [] \<and>
   content (draft '' a'' ''<p>x</p>'') \<noteq> [] \<and>
   content (draft '' a'' ''<p>x</p>'') \<noteq> empty_document \<and>
   featuredImage (draft '' a'' ''<p>x</p>'') = None \<and>
   filter is_AddDoc (effects (handleCreatePost (answering (TransferStalled []) (Resolved ()) Pending False)
       (Some alice) (draft '' a'' ''<p>x</p>''))) =
     [AddDoc (str ''posts'')
        \<lparr>new_title = str ''a'', new_content = str ''<p>x</p>'', new_imageUrl = [],
         new_authorId = str ''u1'', new_authorEmail = str ''a@b.c'',
         new_createdAt = ServerTimestamp\<rparr>] \<and>
   str ''a'' \<noteq> title (draft '' a'' ''<p>x</p>'')"
  by (simp add: handler_defs draft_def initial_state_def answering_def alice_def str_def
      trim_def isWhiteSpace_def empty_document_def authorEmail_def)

text \<open>
  C2. When a submission has a cover file and the promise of \<open>uploadImage\<close> rejects,
  \<open>handleCreatePost\<close> never calls \<open>addDoc\<close>, and the posts the component holds are the
  ones it held.
\<close>

theorem failed_cover_upload_creates_no_record:
  assumes "featuredImage s = Some f"
    and "settled (uploadImage e (Some u) f (begin_submit s)) = Rejected err"
  shows "filter is_AddDoc (effects (handleCreatePost e (Some u) s)) = []
         \<and> posts (state_after (handleCreatePost e (Some u) s)) = posts s"
proof (cases "guard_fails (Some u) s")
  case True
  then show ?thesis by (simp add: handleCreatePost_def effects_def state_after_def)
next
  case False
  obtain p s1 fx where up: "uploadImage e (Some u) f (begin_submit s) = (p, s1, fx)"
    by (cases "uploadImage e (Some u) f (begin_submit s)") auto
  with assms(2) have p: "p = Rejected err" by (simp add: settled_def)
  obtain s2 fx' where cb: "catch_block err s1 = (s2, fx')"
    by (cases "catch_block err s1") auto
  have tb: "try_block e u (begin_submit s) = (Rejected err, s1, fx)"
    using assms(1) up p by (simp add: try_block_def begin_submit_def)
  have res: "handleCreatePost e (Some u) s = (Resolved (), finally_block s2, PreventDefault # fx @ fx')"
    using False tb cb by (simp add: handleCreatePost_def)
  have "posts s1 = posts (begin_submit s)"
    using uploadImage_frame(1) [of e "Some u" f "begin_submit s"] up by (simp add: state_after_def)
  moreover have "posts s2 = posts s1"
    using catch_block_frame(1) [of err s1] cb by simp
  moreover have "filter is_AddDoc fx' = []"
    using catch_block_frame(7) [of err s1] cb by simp
  moreover have "filter is_AddDoc fx = []"
    using uploadImage_no_AddDoc [of e "Some u" f "begin_submit s"] up by (simp add: effects_def)
  ultimately show ?thesis
    using res by (simp add: effects_def state_after_def finally_block_def begin_submit_def)
qed

theorem failed_cover_upload_creates_no_record_witness:
  "featuredImage (with_cover (draft ''Sunset'' ''<p>Hello</p>'')) = Some cover \<and>
   settled (uploadImage
      (answering (TransferError [] (FirebaseError (str ''storage/unauthorized''))) (Resolved ()) Pending False)
      (Some alice) cover (begin_submit (with_cover (draft ''Sunset'' ''<p>Hello</p>''))))
     = Rejected (FirebaseError (str ''storage/unauthorized'')) \<and>
   filter is_AddDoc (effects (handleCreatePost
      (answering (TransferError [] (FirebaseError (str ''storage/unauthorized''))) (Resolved ()) Pending False)
      (Some alice) (with_cover (draft ''Sunset'' ''<p>Hello</p>'')))) = [] \<and>
   posts (state_after (handleCreatePost
      (answering (TransferError [] (FirebaseError (str ''storage/unauthorized''))) (Resolved ()) Pending False)
      (Some alice) (with_cover (draft ''Sunset'' ''<p>Hello</p>'')))) = []"
proof -
  have a: "featuredImage (with_cover (draft ''Sunset'' ''<p>Hello</p>'')) = Some cover"
    by (simp add: with_cover_def)
  have b: "settled (uploadImage
      (answering (TransferError [] (FirebaseError (str ''storage/unauthorized''))) (Resolved ()) Pending False)
      (Some alice) cover (begin_submit (with_cover (draft ''Sunset'' ''<p>Hello</p>''))))
     = Rejected (FirebaseError (str ''storage/unauthorized''))"
    by (simp add: uploadImage_def settled_def answering_def Let_def)
  show ?thesis
    using a b failed_cover_upload_creates_no_record [OF a b] by (simp add: with_cover_def draft_def initial_state_def)
qed




text \<open>
  C4. When the title is empty after trimming, or the content is empty, or the content is
  the empty document \<open><p><br></p>\<close>, \<open>handleCreatePost\<close> returns at line 172: the state is
  the one it was called in, and its only call is \<open>preventDefault\<close> on the event. Nothing
  is uploaded and no record is created.
\<close>

theorem invalid_input_is_noop:
  assumes "trim (title s) = [] \<or> content s = [] \<or> content s = empty_document"
  shows "handleCreatePost e usr s = (Resolved (), s, [PreventDefault])"
  using assms by (auto simp add: handleCreatePost_def guard_fails_def isContentEmpty_def)

theorem invalid_input_is_noop_witness:
  "handleCreatePost (answering (TransferStalled []) (Resolved ()) Pending False) (Some alice)
     (draft ''  '' ''<p>Hi</p>'') =
   (Resolved (), draft ''  '' ''<p>Hi</p>'', [PreventDefault])"
  using invalid_input_is_noop [of "draft ''  '' ''<p>Hi</p>''"
      "answering (TransferStalled []) (Resolved ()) Pending False" "Some alice"]
  by (simp add: draft_def str_def trim_def isWhiteSpace_def)

text \<open>
  C5. In every state the component can reach, at most one call of \<open>handleCreatePost\<close> is
  in flight; and while one is in flight, or \<open>isSubmitting\<close> is set, a submit request
  changes nothing and calls nothing. The handler has no check of \<open>isSubmitting\<close> of its
  own: the request is refused by the submit button, which line 326 disables.
\<close>

theorem at_most_one_submission_in_flight:
  assumes "reachable (s, n)"
  shows "n \<le> 1 \<and> (0 < n \<or> isSubmitting s \<longrightarrow> submit_request e usr s = (Resolved (), s, []))"
  using reachable_invariant [OF assms]
  by (auto simp add: submit_request_def submit_disabled_def)

theorem at_most_one_submission_in_flight_witness:
  "reachable (begin_submit (draft ''Sunset'' ''<p>Hello</p>''), 1) \<and>
   submit_request (answering (TransferStalled []) (Resolved ()) Pending False) (Some alice)
     (begin_submit (draft ''Sunset'' ''<p>Hello</p>'')) =
   (Resolved (), begin_submit (draft ''Sunset'' ''<p>Hello</p>''), [])"
proof -
  have "reachable (draft ''Sunset'' ''<p>Hello</p>'', 0)"
    by (rule reachable.other [OF reachable.start]) (simp add: draft_def)
  moreover have "\<not> submit_disabled (draft ''Sunset'' ''<p>Hello</p>'')"
    by (simp add: submit_disabled_def scenario_defs)
  moreover have "\<not> guard_fails (Some alice) (draft ''Sunset'' ''<p>Hello</p>'')"
    by (simp add: guard_fails_def isContentEmpty_def scenario_defs)
  ultimately have r: "reachable (begin_submit (draft ''Sunset'' ''<p>Hello</p>''), Suc 0)"
    by (rule reachable.submit)
  then have r1: "reachable (begin_submit (draft ''Sunset'' ''<p>Hello</p>''), 1)" by simp
  show ?thesis
    using r1 at_most_one_submission_in_flight [OF r1, of "answering (TransferStalled []) (Resolved ()) Pending False" "Some alice"]
    by simp
qed

text \<open>
  C6. The claim asks for a message on a delete refused for want of ownership that
  differs from the message on any other failed delete. The catch block of
  \<open>handleDeletePost\<close> does not look at the error: whatever \<open>deleteDoc\<close> rejects with, the
  user is told \<open>Permission Denied: You can only delete your own posts.\<close> The catch block
  of \<open>handleCreatePost\<close> does tell the two apart (\<open>catch_block_distinguishes\<close>).
\<close>

theorem delete_failure_alert_ignores_reason:
  assumes "confirm_answer e" and "deleteDoc_result e postId = Rejected err"
  shows "alerts (effects (handleDeletePost e postId s)) =
           [str ''Permission Denied: You can only delete your own posts.'']"
  using assms by (simp add: handleDeletePost_def effects_def Let_def)

theorem delete_failure_alert_ignores_reason_witness:
  "alerts (effects (handleDeletePost
      (answering (TransferStalled []) Pending (Rejected (FirebaseError (str ''resource-exhausted''))) True)
      (str ''p1'') initial_state)) =
   [str ''Permission Denied: You can only delete your own posts.'']"
  using delete_failure_alert_ignores_reason [of "answering (TransferStalled []) Pending (Rejected (FirebaseError (str ''resource-exhausted''))) True"
      "str ''p1''" "FirebaseError (str ''resource-exhausted'')" initial_state]
  by (simp add: answering_def)

text \<open>
  C7, as amended. When the notification channel of a listening subscription fails, the
  error callback logs the error and clears \<open>isInitialLoading\<close>. It reports a condition to
  the component, the message \<open>Access Denied: Check your Firestore rules.\<close>, only when the
  error's code is \<open>permission-denied\<close>; on any other failure \<open>permissionError\<close> is left as it
  was. In both cases the posts are untouched, the callback returns, the listener has
  ended, and no later event from the backend changes the view or calls anything.
\<close>

theorem feed_error_path:
  assumes "listener v = Listening"
    and "view_step (ChannelFailure err) v = (v', fx)"
  shows "permissionError (component v') =
           (if code err = Some (str ''permission-denied'')
            then Some (str ''Access Denied: Check your Firestore rules.'')
            else permissionError (component v))
         \<and> \<not> isInitialLoading (component v')
         \<and> posts (component v') = posts (component v)
         \<and> fx = [ConsoleError (str ''Firestore Error:'') err]
         \<and> listener v' = Errored
         \<and> (list_all from_backend evs \<longrightarrow> run_view v' evs = (v', []))"
proof -
  from assms have v': "v' = \<lparr>component = fst (onError err (component v)), listener = Errored\<rparr>"
    and fx: "fx = snd (onError err (component v))"
    by (auto split: prod.splits)
  have "list_all from_backend evs \<longrightarrow> run_view v' evs = (v', [])"
    using run_view_deaf [of v' evs] v' by simp
  then show ?thesis using v' fx by (simp add: onError_def Let_def)
qed

theorem feed_error_path_witness:
  "listener mounted = Listening \<and>
   permissionError (component (fst (view_step (ChannelFailure (FirebaseError (str ''permission-denied''))) mounted))) =
     Some (str ''Access Denied: Check your Firestore rules.'') \<and>
   run_view (fst (view_step (ChannelFailure (FirebaseError (str ''permission-denied''))) mounted))
     [Notification [doc_at ''a'' None]] =
     (fst (view_step (ChannelFailure (FirebaseError (str ''permission-denied''))) mounted), [])"
proof -
  have a: "listener mounted = Listening" by (simp add: mounted_def)
  have b: "view_step (ChannelFailure (FirebaseError (str ''permission-denied''))) mounted =
     (fst (view_step (ChannelFailure (FirebaseError (str ''permission-denied''))) mounted),
      snd (view_step (ChannelFailure (FirebaseError (str ''permission-denied''))) mounted))"
    by simp
  show ?thesis
    using a feed_error_path [OF a b, of "[Notification [doc_at ''a'' None]]"] by simp
qed

text \<open>
  C7 as stated fails: on a failure with the code \<open>unavailable\<close> no message is set and no
  alert is raised, and the component is left in the very state an empty result set
  leaves it in.
\<close>

theorem connectivity_failure_unreported_counterexample:
  "listener mounted = Listening \<and>
   permissionError (component (fst (view_step (ChannelFailure (FirebaseError (str ''unavailable''))) mounted))) = None \<and>
   alerts (snd (view_step (ChannelFailure (FirebaseError (str ''unavailable''))) mounted)) = [] \<and>
   component (fst (view_step (ChannelFailure (FirebaseError (str ''unavailable''))) mounted)) =
     component (fst (view_step (Notification []) mounted))"
  by (simp add: mounted_def onError_def onNext_def Let_def initial_state_def str_def)

text \<open>
  C8. Over the life of a view, from its mount through any renders and backend events to
  its unmount, \<open>onSnapshot\<close> is called exactly once, with the posts query, and
  \<open>unsubscribe\<close> is called exactly once. After the unmount no event from the backend
  changes the view or hands a snapshot to it.
\<close>

theorem subscribe_once_per_mount:
  assumes "Mount \<notin> set body" "Unmount \<notin> set body" "list_all from_backend later"
    and "run_view v (Mount # body @ [Unmount]) = (v', fx)"
  shows "filter is_OnSnapshot fx = [OnSnapshot posts_query] \<and>
         count_list fx Unsubscribe = 1 \<and>
         run_view v' later = (v', [])"
proof -
  obtain v1 fx1 where m: "view_step Mount v = (v1, fx1)" by (cases "view_step Mount v") auto
  obtain v2 fx2 where b: "run_view v1 body = (v2, fx2)" by (cases "run_view v1 body") auto
  have fx1: "fx1 = [OnSnapshot posts_query]" using m by auto
  have fx2: "filter is_OnSnapshot fx2 = [] \<and> count_list fx2 Unsubscribe = 0"
    using run_view_lifecycle_free [OF assms(1,2), of v1] b by simp
  have "run_view v (Mount # body @ [Unmount]) =
          (v2\<lparr>listener := Unsubscribed\<rparr>, fx1 @ fx2 @ [Unsubscribe])"
    using m b by (simp add: run_view_append)
  with assms(4) have v': "v' = v2\<lparr>listener := Unsubscribed\<rparr>" and fx: "fx = fx1 @ fx2 @ [Unsubscribe]"
    by simp_all
  have "run_view v' later = (v', [])"
    by (rule run_view_deaf) (simp_all add: v' assms(3))
  then show ?thesis using fx fx1 fx2 by simp
qed

theorem subscribe_once_per_mount_witness:
  "filter is_OnSnapshot (snd (run_view initial_view
      (Mount # [Render, Notification [doc_at ''a'' None], Render] @ [Unmount]))) =
     [OnSnapshot posts_query] \<and>
   count_list (snd (run_view initial_view
      (Mount # [Render, Notification [doc_at ''a'' None], Render] @ [Unmount]))) Unsubscribe = 1 \<and>
   run_view (fst (run_view initial_view
      (Mount # [Render, Notification [doc_at ''a'' None], Render] @ [Unmount])))
     [Notification [doc_at ''b'' None]] =
   (fst (run_view initial_view
      (Mount # [Render, Notification [doc_at ''a'' None], Render] @ [Unmount])), [])"
proof -
  have a: "Mount \<notin> set [Render, Notification [doc_at ''a'' None], Render]"
    and b: "Unmount \<notin> set [Render, Notification [doc_at ''a'' None], Render]"
    and c: "list_all from_backend [Notification [doc_at ''b'' None]]"
    by simp_all
  have d: "run_view initial_view
      (Mount # [Render, Notification [doc_at ''a'' None], Render] @ [Unmount]) =
     (fst (run_view initial_view
        (Mount # [Render, Notification [doc_at ''a'' None], Render] @ [Unmount])),
      snd (run_view initial_view
        (Mount # [Render, Notification [doc_at ''a'' None], Render] @ [Unmount])))"
    by simp
  show ?thesis using subscribe_once_per_mount [OF a b c d] by simp
qed

text \<open>
  C9. The claim has \<open>isSubmitting\<close> false again after a failed createPost. When the
  transfer of the cover completes and \<open>getDownloadURL\<close> rejects, the completion observer
  of lines 66 to 69 has no catch: the promise of \<open>uploadImage\<close> is neither resolved nor
  rejected, line 180 never resumes and the finally block never runs. No record is
  created, nothing is reported, the form is as it was, and \<open>isSubmitting\<close> stays true.
  The error observer of line 65 does reject, and on the paths that settle the claim
  holds (\<open>createPost_form_frame\<close>).
\<close>

theorem getDownloadURL_rejection_leaves_submitting:
  assumes "\<not> guard_fails (Some u) s" and "featuredImage s = Some f"
    and "upload e (str ''posts/'' @ uid u @ str ''/'' @ toDecimal (now e) @ str ''_'' @ name f) f =
           TransferComplete snaps (Rejected err)"
  shows "settled (handleCreatePost e (Some u) s) = Pending
         \<and> isSubmitting (state_after (handleCreatePost e (Some u) s))
         \<and> title (state_after (handleCreatePost e (Some u) s)) = title s
         \<and> content (state_after (handleCreatePost e (Some u) s)) = content s
         \<and> featuredImage (state_after (handleCreatePost e (Some u) s)) = featuredImage s
         \<and> imagePreview (state_after (handleCreatePost e (Some u) s)) = imagePreview s
         \<and> permissionError (state_after (handleCreatePost e (Some u) s)) = None
         \<and> filter is_AddDoc (effects (handleCreatePost e (Some u) s)) = []
         \<and> alerts (effects (handleCreatePost e (Some u) s)) = []"
  using assms
  by (simp add: handleCreatePost_def try_block_def uploadImage_def begin_submit_def
      settled_def state_after_def effects_def report_progress_frame Let_def)

theorem getDownloadURL_rejection_leaves_submitting_witness:
  "settled (handleCreatePost
      (answering (TransferComplete [] (Rejected (FirebaseError (str ''storage/unauthorized''))))
         (Resolved ()) Pending False)
      (Some alice) (with_cover (draft ''Sunset'' ''<p>Hello</p>''))) = Pending \<and>
   isSubmitting (state_after (handleCreatePost
      (answering (TransferComplete [] (Rejected (FirebaseError (str ''storage/unauthorized''))))
         (Resolved ()) Pending False)
      (Some alice) (with_cover (draft ''Sunset'' ''<p>Hello</p>'')))) \<and>
   filter is_AddDoc (effects (handleCreatePost
      (answering (TransferComplete [] (Rejected (FirebaseError (str ''storage/unauthorized''))))
         (Resolved ()) Pending False)
      (Some alice) (with_cover (draft ''Sunset'' ''<p>Hello</p>'')))) = [] \<and>
   alerts (effects (handleCreatePost
      (answering (TransferComplete [] (Rejected (FirebaseError (str ''storage/unauthorized''))))
         (Resolved ()) Pending False)
      (Some alice) (with_cover (draft ''Sunset'' ''<p>Hello</p>'')))) = []"
proof -
  have a: "\<not> guard_fails (Some alice) (with_cover (draft ''Sunset'' ''<p>Hello</p>''))"
    by (simp add: guard_fails_def isContentEmpty_def scenario_defs)
  have b: "featuredImage (with_cover (draft ''Sunset'' ''<p>Hello</p>'')) = Some cover"
    by (simp add: with_cover_def)
  have c: "upload
      (answering (TransferComplete [] (Rejected (FirebaseError (str ''storage/unauthorized''))))
         (Resolved ()) Pending False)
      (str ''posts/'' @ uid alice @ str ''/'' @
       toDecimal (now (answering
         (TransferComplete [] (Rejected (FirebaseError (str ''storage/unauthorized''))))
         (Resolved ()) Pending False)) @ str ''_'' @ name cover) cover =
     TransferComplete [] (Rejected (FirebaseError (str ''storage/unauthorized'')))"
    by (simp add: answering_def)
  show ?thesis
    using getDownloadURL_rejection_leaves_submitting [OF a b c] by simp
qed

text \<open>
  C10. Without a signed-in user \<open>handleCreatePost\<close> returns at line 172 whatever the title
  and the content are, exactly as it does on invalid input: the state is unchanged, no
  message is set, no alert is raised, nothing is uploaded and no record is created.
\<close>

theorem missing_identity_is_silent_noop: "handleCreatePost e None s = (Resolved (), s, [PreventDefault])"
  by (simp add: handleCreatePost_def)

theorem missing_identity_is_silent_noop_witness:
  "handleCreatePost (answering (TransferStalled []) (Resolved ()) Pending False) None
     (draft ''Sunset'' ''<p>Hello</p>'') =
   (Resolved (), draft ''Sunset'' ''<p>Hello</p>'', [PreventDefault])"
  using missing_identity_is_silent_noop [of "answering (TransferStalled []) (Resolved ()) Pending False" "draft ''Sunset'' ''<p>Hello</p>''"]
  by simp

end
